theory Spec2Isabelle
  imports Main "HOL-Library.Code_Target_Nat"
begin

section \<open>Strings and the address parser of the standard library\<close>

text \<open>
  \<^verbatim>\<open>py_generate_cert.py\<close> classifies a SAN string by calling
  \<^verbatim>\<open>ipaddress.ip_address\<close> and catching its \<^verbatim>\<open>ValueError\<close>. The parser is
  CPython's (module \<^verbatim>\<open>ipaddress\<close>, release 3.11), embedded here function by
  function for \<^verbatim>\<open>str\<close> arguments. A Python string is a \<open>string\<close>: a \<open>char\<close> is a
  code point below 256, so the strings of the model are those of Latin-1; a character is
  ASCII when its code is below 128, and only ASCII characters are digits.
\<close>

text \<open>\<^verbatim>\<open>str.split(sep)\<close> for a one-character separator: never an empty list.\<close>

fun split_on :: "char \<Rightarrow> string \<Rightarrow> string list" where
  "split_on c [] = [[]]"
| "split_on c (x # xs) =
     (if x = c then [] # split_on c xs
      else (case split_on c xs of [] \<Rightarrow> [[x]] | p # ps \<Rightarrow> (x # p) # ps))"

text \<open>\<^verbatim>\<open>str.partition(sep)\<close>: the text before the first separator, whether a
  separator was found, and the text after it.\<close>

fun partition_on :: "char \<Rightarrow> string \<Rightarrow> string \<times> bool \<times> string" where
  "partition_on c [] = ([], False, [])"
| "partition_on c (x # xs) =
     (if x = c then ([], True, xs)
      else (case partition_on c xs of (a, found, b) \<Rightarrow> (x # a, found, b)))"

definition is_decimal_digit :: "char \<Rightarrow> bool" where
  "is_decimal_digit c = (c \<in> set ''0123456789'')"

definition is_hex_digit :: "char \<Rightarrow> bool" where
  "is_hex_digit c = (c \<in> set ''0123456789ABCDEFabcdef'')"

definition digit_value :: "char \<Rightarrow> nat" where
  "digit_value c =
     (let n = (of_char c :: nat) in
      if 97 \<le> n then n - 87 else if 65 \<le> n then n - 55 else n - 48)"

text \<open>\<^verbatim>\<open>int(s, base)\<close> on a string of digits of that base.\<close>

definition int_of_digits :: "nat \<Rightarrow> string \<Rightarrow> nat" where
  "int_of_digits base s = foldl (\<lambda>n c. base * n + digit_value c) 0 s"

text \<open>\<^verbatim>\<open>IPv4Address._parse_octet\<close>; \<open>None\<close> is its \<^verbatim>\<open>ValueError\<close>.\<close>

definition parse_octet :: "string \<Rightarrow> nat option" where
  "parse_octet octet_str =
     (if octet_str = [] then None
      else if \<not> list_all is_decimal_digit octet_str then None
      else if length octet_str > 3 then None
      else if octet_str \<noteq> ''0'' \<and> hd octet_str = CHR ''0'' then None
      else (let octet_int = int_of_digits 10 octet_str in
            if octet_int > 255 then None else Some octet_int))"

text \<open>\<^verbatim>\<open>IPv4Address._ip_int_from_string\<close>; \<open>None\<close> is \<^verbatim>\<open>AddressValueError\<close>.\<close>

definition ipv4_int_from_string :: "string \<Rightarrow> nat option" where
  "ipv4_int_from_string ip_str =
     (if ip_str = [] then None
      else (let octets = split_on (CHR ''.'') ip_str in
            if length octets \<noteq> 4 then None
            else (case those (map parse_octet octets) of
                    None \<Rightarrow> None
                  | Some ns \<Rightarrow> Some (foldl (\<lambda>a b. 256 * a + b) 0 ns))))"

text \<open>\<^verbatim>\<open>IPv4Address.__init__\<close> on a string.\<close>

definition ipv4_of_string :: "string \<Rightarrow> nat option" where
  "ipv4_of_string addr_str =
     (if CHR ''/'' \<in> set addr_str then None else ipv4_int_from_string addr_str)"

text \<open>\<^verbatim>\<open>IPv6Address._parse_hextet\<close>; \<^verbatim>\<open>int('', 16)\<close> raises too.\<close>

definition parse_hextet :: "string \<Rightarrow> nat option" where
  "parse_hextet hextet_str =
     (if \<not> list_all is_hex_digit hextet_str then None
      else if length hextet_str > 4 then None
      else if hextet_str = [] then None
      else Some (int_of_digits 16 hextet_str))"

text \<open>\<^verbatim>\<open>'%x' % n\<close>.\<close>

definition hex_char :: "nat \<Rightarrow> char" where
  "hex_char d = ''0123456789abcdef'' ! d"

fun format_hex :: "nat \<Rightarrow> string" where
  "format_hex n =
     (if n < 16 then [hex_char n] else format_hex (n div 16) @ [hex_char (n mod 16)])"

declare format_hex.simps [simp del]

text \<open>The loop that looks for one \<^verbatim>\<open>::\<close> among the inner parts: the outer
  \<open>None\<close> is the error for a second one.\<close>

fun find_skip_index :: "string list \<Rightarrow> nat list \<Rightarrow> nat option \<Rightarrow> nat option option" where
  "find_skip_index parts [] skip_index = Some skip_index"
| "find_skip_index parts (i # rest) skip_index =
     (if parts ! i = [] then
        (if skip_index \<noteq> None then None else find_skip_index parts rest (Some i))
      else find_skip_index parts rest skip_index)"

text \<open>The two loops that fold the hextets into the integer.\<close>

definition shift_hextets :: "nat \<Rightarrow> nat list \<Rightarrow> nat" where
  "shift_hextets ip_int hs = foldl (\<lambda>a h. a * 65536 + h) ip_int hs"

definition assemble_v6 :: "string list \<Rightarrow> nat \<Rightarrow> nat \<Rightarrow> nat \<Rightarrow> nat option" where
  "assemble_v6 parts parts_hi parts_lo parts_skipped =
     (case those (map parse_hextet (take parts_hi parts)) of
        None \<Rightarrow> None
      | Some his \<Rightarrow>
          (case those (map parse_hextet (drop (length parts - parts_lo) parts)) of
             None \<Rightarrow> None
           | Some los \<Rightarrow>
               Some (shift_hextets (shift_hextets 0 his * 2 ^ (16 * parts_skipped)) los)))"

text \<open>The part of \<^verbatim>\<open>IPv6Address._ip_int_from_string\<close> after the IPv4 suffix has
  been replaced.\<close>

definition ipv6_from_parts :: "string list \<Rightarrow> nat option" where
  "ipv6_from_parts parts =
     (if length parts > 9 then None
      else (case find_skip_index parts [1 ..< length parts - 1] None of
              None \<Rightarrow> None
            | Some (Some skip_index) \<Rightarrow>
                (let parts_hi = skip_index;
                     parts_lo = length parts - skip_index - 1 in
                 if hd parts = [] \<and> parts_hi - 1 \<noteq> 0 then None
                 else (let parts_hi = (if hd parts = [] then parts_hi - 1 else parts_hi) in
                       if last parts = [] \<and> parts_lo - 1 \<noteq> 0 then None
                       else (let parts_lo = (if last parts = [] then parts_lo - 1 else parts_lo) in
                             if parts_hi + parts_lo \<ge> 8 then None
                             else assemble_v6 parts parts_hi parts_lo
                                    (8 - (parts_hi + parts_lo)))))
            | Some None \<Rightarrow>
                (if length parts \<noteq> 8 then None
                 else if hd parts = [] then None
                 else if last parts = [] then None
                 else assemble_v6 parts (length parts) 0 0)))"

text \<open>\<^verbatim>\<open>IPv6Address._ip_int_from_string\<close>. The list of parts has at least three
  elements where \<open>hd\<close>, \<open>last\<close> and \<open>butlast\<close> are used.\<close>

definition ipv6_int_from_string :: "string \<Rightarrow> nat option" where
  "ipv6_int_from_string ip_str =
     (if ip_str = [] then None
      else (let parts = split_on (CHR '':'') ip_str in
            if length parts < 3 then None
            else if CHR ''.'' \<in> set (last parts) then
              (case ipv4_of_string (last parts) of
                 None \<Rightarrow> None
               | Some ipv4_int \<Rightarrow>
                   ipv6_from_parts (butlast parts @
                     [format_hex ((ipv4_int div 65536) mod 65536),
                      format_hex (ipv4_int mod 65536)]))
            else ipv6_from_parts parts))"

text \<open>\<^verbatim>\<open>IPv6Address._split_scope_id\<close>.\<close>

definition split_scope_id :: "string \<Rightarrow> (string \<times> string option) option" where
  "split_scope_id ip_str =
     (case partition_on (CHR ''%'') ip_str of
        (addr, sep, scope_id) \<Rightarrow>
          if \<not> sep then Some (addr, None)
          else if scope_id = [] \<or> CHR ''%'' \<in> set scope_id then None
          else Some (addr, Some scope_id))"

text \<open>An address object: the version, the integer and, for version 6, the scope
  id. Python's \<^verbatim>\<open>==\<close> on addresses compares exactly these, so it is HOL's \<open>=\<close>.\<close>

datatype ip_addr = IPv4Address nat | IPv6Address nat "string option"

definition ipv6_of_string :: "string \<Rightarrow> ip_addr option" where
  "ipv6_of_string addr_str =
     (if CHR ''/'' \<in> set addr_str then None
      else (case split_scope_id addr_str of
              None \<Rightarrow> None
            | Some (addr, scope_id) \<Rightarrow>
                (case ipv6_int_from_string addr of
                   None \<Rightarrow> None
                 | Some ip \<Rightarrow> Some (IPv6Address ip scope_id))))"

text \<open>\<^verbatim>\<open>ipaddress.ip_address\<close>: version 4 first, then version 6; \<open>None\<close> is the
  \<^verbatim>\<open>ValueError\<close> that \<^verbatim>\<open>parse_san\<close> catches.\<close>

definition ip_address :: "string \<Rightarrow> ip_addr option" where
  "ip_address address =
     (case ipv4_of_string address of
        Some ip \<Rightarrow> Some (IPv4Address ip)
      | None \<Rightarrow> ipv6_of_string address)"

section \<open>The values of the certificate library\<close>

text \<open>
  The objects that \<^verbatim>\<open>py_generate_cert.py\<close> builds with the \<^verbatim>\<open>cryptography\<close>
  package. \<^verbatim>\<open>x509.DNSName\<close>, \<^verbatim>\<open>x509.IPAddress\<close> and \<^verbatim>\<open>x509.NameAttribute\<close>
  are value objects whose \<^verbatim>\<open>==\<close> compares the class and the value, so they are
  datatype constructors and \<^verbatim>\<open>==\<close> is \<open>=\<close>. The checks that the library makes
  when such an object is built are the functions \<open>dns_name\<close> and \<open>name_attribute\<close>
  below; the datatype constructors are the objects once built.
\<close>

datatype general_name = DNSName string | IPAddress ip_addr

datatype name_oid =
  COUNTRY_NAME | STATE_OR_PROVINCE_NAME | LOCALITY_NAME | ORGANIZATION_NAME | COMMON_NAME

datatype name_attribute = NameAttribute name_oid string

record key_usage =
  digital_signature :: bool
  content_commitment :: bool
  key_encipherment :: bool
  data_encipherment :: bool
  key_agreement :: bool
  key_cert_sign :: bool
  crl_sign :: bool
  encipher_only :: bool
  decipher_only :: bool

datatype extension_value = SubjectAlternativeName "general_name list" | KeyUsage key_usage

text \<open>An extension and its \<^verbatim>\<open>critical\<close> flag.\<close>

datatype extension = Extension extension_value bool

text \<open>An RSA key: public exponent, size in bits, and the random material it was
  drawn from. The public key is the same triple seen from outside.\<close>

datatype private_key = RSAPrivateKey int int nat

datatype public_key = RSAPublicKey int int nat

fun public_key_of :: "private_key \<Rightarrow> public_key" where
  "public_key_of (RSAPrivateKey e bits material) = RSAPublicKey e bits material"

datatype hash_algorithm = SHA256

text \<open>A signed certificate. Its two times are whole seconds since 1970-01-01 UTC,
  the granularity of the encoded validity.\<close>

record certificate =
  subject :: "name_attribute list"
  issuer :: "name_attribute list"
  cert_public_key :: public_key
  serial_number :: int
  not_valid_before :: int
  not_valid_after :: int
  extensions :: "extension list"
  signature_hash :: hash_algorithm
  signed_with :: private_key

section \<open>Arguments, errors and the environment\<close>

text \<open>The namespace that \<^verbatim>\<open>parse_args\<close> returns; \<^verbatim>\<open>args.size\<close> is \<open>size_arg\<close>.
  \<^verbatim>\<open>args.sans\<close> is \<^verbatim>\<open>None\<close> when no \<^verbatim>\<open>--san\<close> was given.\<close>

record args =
  hostname :: string
  days :: int
  key :: string
  cert :: string
  size_arg :: int
  country :: string
  state :: string
  city :: string
  org :: string
  sans :: "string list option"
  overwrite :: bool
  verbose :: bool

datatype value_error =
  NotAnAddress | NonAsciiDNSName | CountryNameNotTwoBytes | AttributeLength
  | BadPublicExponent | KeySizeBelowMinimum | BadSerialNumber
  | BeforeEarliestTime | NotAfterPrecedesNotBefore

datatype error = ValueError value_error | OverflowError | SigningFailed | OSError | EOFError

datatype target = KeyFile | CertFile

datatype write_outcome = WriteOk | WriteFailsEmpty | WriteFailsPartial

text \<open>
  Everything the run reads from outside the program:
  \<^item> \<open>min_key_size\<close>: the smallest RSA size the installed \<^verbatim>\<open>cryptography\<close> release
    generates (the script pins no release; the bound is 512 before release 43 and 1024
    from it on);
  \<^item> \<open>value_length_ok\<close>: which byte lengths the installed release accepts for the value
    of each name attribute, besides the two bytes it demands of a country name in every
    release (recent releases bound the common name by 1 and 64, older ones refuse the
    empty string);
  \<^item> \<open>key_material\<close>, \<open>random_serial\<close>: what the random source yields for the key and
    for \<^verbatim>\<open>x509.random_serial_number()\<close>;
  \<^item> \<open>now1\<close>, \<open>now2\<close>: the results of the first and the second call of
    \<^verbatim>\<open>datetime.datetime.utcnow()\<close>, in microseconds since 1970-01-01;
  \<^item> \<open>sign_fails\<close>: whether \<^verbatim>\<open>cert_builder.sign\<close> raises;
  \<^item> \<open>open_fails\<close>, \<open>write_result\<close>: whether opening and writing each output file
    fails, and whether a failed write left part of the data behind;
  \<^item> \<open>user_input\<close>: the line \<^verbatim>\<open>input()\<close> returns, \<open>None\<close> at end of input.
\<close>

record env =
  min_key_size :: int
  value_length_ok :: "name_oid \<Rightarrow> nat \<Rightarrow> bool"
  key_material :: nat
  random_serial :: int
  now1 :: int
  now2 :: int
  sign_fails :: bool
  open_fails :: "target \<Rightarrow> bool"
  write_result :: "target \<Rightarrow> write_outcome"
  user_input :: "string option"

datatype pem = PrivateKeyPEM private_key | CertificatePEM certificate

text \<open>What a path holds: nothing after \<^verbatim>\<open>open(path, "wb")\<close> truncated it, a part of
  the data after a write that failed midway, or all of it.\<close>

datatype file_content = Truncated | Torn pem | Complete pem

type_synonym filesystem = "string \<rightharpoonup> file_content"

section \<open>The program\<close>

subsection \<open>The constructors of the library that check their argument\<close>

definition is_ascii :: "string \<Rightarrow> bool" where
  "is_ascii s = list_all (\<lambda>c. (of_char c :: nat) < 128) s"

text \<open>\<^verbatim>\<open>len(value.encode("utf8"))\<close>: a code point from 128 to 255 takes two bytes.\<close>

definition utf8_length :: "string \<Rightarrow> nat" where
  "utf8_length s = length s + length (filter (\<lambda>c. 128 \<le> (of_char c :: nat)) s)"

text \<open>\<^verbatim>\<open>x509.DNSName(value)\<close>: the constructor encodes the string as ASCII and raises
  \<^verbatim>\<open>ValueError\<close> when that fails.\<close>

definition dns_name :: "string \<Rightarrow> error + general_name" where
  "dns_name v =
     (if is_ascii v then Inr (DNSName v) else Inl (ValueError NonAsciiDNSName))"

text \<open>\<^verbatim>\<open>x509.NameAttribute(oid, value)\<close>: a country name must be two bytes long, and
  the value must have a length the release accepts; otherwise \<^verbatim>\<open>ValueError\<close>.\<close>

definition name_attribute :: "env \<Rightarrow> name_oid \<Rightarrow> string \<Rightarrow> error + name_attribute" where
  "name_attribute e oid v =
     (if oid = COUNTRY_NAME \<and> utf8_length v \<noteq> 2 then Inl (ValueError CountryNameNotTwoBytes)
      else if \<not> value_length_ok e oid (utf8_length v) then Inl (ValueError AttributeLength)
      else Inr (NameAttribute oid v))"

text \<open>The elements of a list display are evaluated from left to right; the first one
  that raises ends the evaluation.\<close>

fun all_or_first_error :: "(error + 'a) list \<Rightarrow> error + 'a list" where
  "all_or_first_error [] = Inr []"
| "all_or_first_error (Inl err # rest) = Inl err"
| "all_or_first_error (Inr x # rest) =
     (case all_or_first_error rest of Inl err \<Rightarrow> Inl err | Inr xs \<Rightarrow> Inr (x # xs))"

subsection \<open>\<^verbatim>\<open>parse_san\<close> and the SAN list\<close>

text \<open>\<^verbatim>\<open>parse_san\<close>: an address if \<^verbatim>\<open>ip_address\<close> returns; if it raises
  \<^verbatim>\<open>ValueError\<close>, the handler builds a DNS name, and an error of that constructor
  leaves the function.\<close>

definition parse_san :: "string \<Rightarrow> error + general_name" where
  "parse_san san_value =
     (case ip_address san_value of
        Some ip \<Rightarrow> Inr (IPAddress ip)
      | None \<Rightarrow> dns_name san_value)"

text \<open>The loop over \<^verbatim>\<open>args.sans\<close> (lines 127 to 130); an error of \<^verbatim>\<open>parse_san\<close>
  ends it.\<close>

fun add_sans :: "general_name list \<Rightarrow> string list \<Rightarrow> error + general_name list" where
  "add_sans san_list [] = Inr san_list"
| "add_sans san_list (san # rest) =
     (case parse_san san of
        Inl err \<Rightarrow> Inl err
      | Inr san_obj \<Rightarrow>
          add_sans (if san_obj \<notin> set san_list then san_list @ [san_obj] else san_list) rest)"

text \<open>Lines 116 to 130 of \<^verbatim>\<open>generate_certificate\<close>. The first entry is the DNS name
  of the host. The two loopback entries are made by \<^verbatim>\<open>ip_address\<close> from literals; were
  it to raise, the error would leave the function. \<^verbatim>\<open>if args.sans:\<close> is false for
  \<^verbatim>\<open>None\<close> and for the empty list.\<close>

definition build_san_list :: "string \<Rightarrow> string list option \<Rightarrow> error + general_name list" where
  "build_san_list host extra =
     (case dns_name host of
        Inl err \<Rightarrow> Inl err
      | Inr host_entry \<Rightarrow>
     (let san_list = [host_entry] in
      case (if host = ''localhost'' then
              (case ip_address ''127.0.0.1'' of
                 None \<Rightarrow> Inl (ValueError NotAnAddress)
               | Some v4 \<Rightarrow>
                   (case ip_address ''::1'' of
                      None \<Rightarrow> Inl (ValueError NotAnAddress)
                    | Some v6 \<Rightarrow> Inr (san_list @ [IPAddress v4, IPAddress v6])))
            else Inr san_list) of
        Inl err \<Rightarrow> Inl err
      | Inr san_list \<Rightarrow>
          (case extra of
             None \<Rightarrow> Inr san_list
           | Some raw \<Rightarrow> if raw = [] then Inr san_list else add_sans san_list raw)))"

subsection \<open>Key, name and validity\<close>

text \<open>\<^verbatim>\<open>rsa.generate_private_key\<close>: the library checks the exponent, then the size
  against its minimum.\<close>

definition rsa_generate_private_key :: "env \<Rightarrow> int \<Rightarrow> int \<Rightarrow> error + private_key" where
  "rsa_generate_private_key e public_exponent key_size =
     (if public_exponent \<noteq> 3 \<and> public_exponent \<noteq> 65537 then Inl (ValueError BadPublicExponent)
      else if key_size < min_key_size e then Inl (ValueError KeySizeBelowMinimum)
      else Inr (RSAPrivateKey public_exponent key_size (key_material e)))"

text \<open>Lines 107 to 113: one \<^verbatim>\<open>x509.Name\<close>, bound to both \<^verbatim>\<open>subject\<close> and
  \<^verbatim>\<open>issuer\<close>; its five attributes are built in order.\<close>

definition subject_name :: "env \<Rightarrow> args \<Rightarrow> error + name_attribute list" where
  "subject_name e a =
     all_or_first_error
       [name_attribute e COUNTRY_NAME (country a),
        name_attribute e STATE_OR_PROVINCE_NAME (state a),
        name_attribute e LOCALITY_NAME (city a),
        name_attribute e ORGANIZATION_NAME (org a),
        name_attribute e COMMON_NAME (hostname a)]"

text \<open>\<^verbatim>\<open>CertificateBuilder.serial_number\<close>: the number must be positive and shorter
  than 160 bits.\<close>

definition builder_serial_number :: "int \<Rightarrow> error + int" where
  "builder_serial_number number =
     (if number \<le> 0 then Inl (ValueError BadSerialNumber)
      else if number \<ge> 2 ^ 159 then Inl (ValueError BadSerialNumber)
      else Inr number)"

text \<open>Times are microseconds since 1970-01-01 UTC. A \<^verbatim>\<open>datetime\<close> lies between
  the years 1 and 9999, a \<^verbatim>\<open>timedelta\<close> within 999999999 days; outside, Python
  raises \<^verbatim>\<open>OverflowError\<close>.\<close>

definition datetime_min :: int where
  "datetime_min = - 62135596800000000"

definition datetime_max :: int where
  "datetime_max = 253402300799999999"

definition timedelta_days :: "int \<Rightarrow> error + int" where
  "timedelta_days d =
     (if d < - 999999999 \<or> d > 999999999 then Inl OverflowError
      else Inr (d * 86400000000))"

definition datetime_add :: "int \<Rightarrow> int \<Rightarrow> error + int" where
  "datetime_add t delta =
     (let r = t + delta in
      if r < datetime_min \<or> r > datetime_max then Inl OverflowError else Inr r)"

text \<open>The library's earliest time, 1950-01-01, and the two setters of
  \<^verbatim>\<open>CertificateBuilder\<close> with their range and order checks.\<close>

definition EARLIEST_UTC_TIME :: int where
  "EARLIEST_UTC_TIME = - 631152000000000"

definition builder_not_valid_before :: "int \<Rightarrow> error + int" where
  "builder_not_valid_before time =
     (if time < EARLIEST_UTC_TIME then Inl (ValueError BeforeEarliestTime) else Inr time)"

definition builder_not_valid_after :: "int \<Rightarrow> int \<Rightarrow> error + int" where
  "builder_not_valid_after before time =
     (if time < EARLIEST_UTC_TIME then Inl (ValueError BeforeEarliestTime)
      else if time < before then Inl (ValueError NotAfterPrecedesNotBefore)
      else Inr time)"

text \<open>The \<^verbatim>\<open>KeyUsage\<close> of lines 158 to 168.\<close>

definition the_key_usage :: key_usage where
  "the_key_usage =
     \<lparr>digital_signature = True, content_commitment = False, key_encipherment = True,
      data_encipherment = False, key_agreement = False, key_cert_sign = False,
      crl_sign = False, encipher_only = False, decipher_only = False\<rparr>"

text \<open>\<^verbatim>\<open>cert_builder.sign(key, hashes.SHA256())\<close>: the encoded times drop the
  microseconds.\<close>

definition sign :: "env \<Rightarrow> private_key \<Rightarrow> name_attribute list \<Rightarrow> name_attribute list \<Rightarrow>
    int \<Rightarrow> int \<Rightarrow> int \<Rightarrow> extension list \<Rightarrow> error + certificate" where
  "sign e k subj iss serial before after exts =
     (if sign_fails e then Inl SigningFailed
      else Inr \<lparr>subject = subj, issuer = iss, cert_public_key = public_key_of k,
                serial_number = serial,
                not_valid_before = before div 1000000,
                not_valid_after = after div 1000000,
                extensions = exts, signature_hash = SHA256, signed_with = k\<rparr>)"

subsection \<open>\<^verbatim>\<open>generate_certificate\<close>\<close>

text \<open>Lines 100 to 172: everything up to and including the signature, in the order the
  source evaluates it. Console output is left out.\<close>

definition build_certificate :: "env \<Rightarrow> args \<Rightarrow> error + (private_key \<times> certificate)" where
  "build_certificate e a =
     (case rsa_generate_private_key e 65537 (size_arg a) of
        Inl err \<Rightarrow> Inl err
      | Inr k \<Rightarrow>
     (case subject_name e a of
        Inl err \<Rightarrow> Inl err
      | Inr subj \<Rightarrow>
     (let iss = subj in
      case build_san_list (hostname a) (sans a) of
        Inl err \<Rightarrow> Inl err
      | Inr san_list \<Rightarrow>
     (case builder_serial_number (random_serial e) of
        Inl err \<Rightarrow> Inl err
      | Inr serial \<Rightarrow>
     (case builder_not_valid_before (now1 e) of
        Inl err \<Rightarrow> Inl err
      | Inr before \<Rightarrow>
     (case timedelta_days (days a) of
        Inl err \<Rightarrow> Inl err
      | Inr delta \<Rightarrow>
     (case datetime_add (now2 e) delta of
        Inl err \<Rightarrow> Inl err
      | Inr t \<Rightarrow>
     (case builder_not_valid_after before t of
        Inl err \<Rightarrow> Inl err
      | Inr after \<Rightarrow>
     (case sign e k subj iss serial before after
             [Extension (SubjectAlternativeName san_list) False,
              Extension (KeyUsage the_key_usage) True] of
        Inl err \<Rightarrow> Inl err
      | Inr c \<Rightarrow> Inr (k, c))))))))))"

text \<open>\<^verbatim>\<open>with open(path, "wb") as f: f.write(data)\<close>: opening truncates or creates
  the file, then the data is written.\<close>

definition write_file ::
    "env \<Rightarrow> target \<Rightarrow> string \<Rightarrow> pem \<Rightarrow> filesystem \<Rightarrow> error option \<times> filesystem" where
  "write_file e t path data fs =
     (if open_fails e t then (Some OSError, fs)
      else (case write_result e t of
              WriteOk \<Rightarrow> (None, fs(path \<mapsto> Complete data))
            | WriteFailsEmpty \<Rightarrow> (Some OSError, fs(path \<mapsto> Truncated))
            | WriteFailsPartial \<Rightarrow> (Some OSError, fs(path \<mapsto> Torn data))))"

text \<open>The whole function: the certificate is built and signed, then the key is written
  (lines 175 to 180), then the certificate (lines 183 and 184). The result is the error
  raised or the certificate, with the files as the call left them.\<close>

definition generate_certificate ::
    "env \<Rightarrow> args \<Rightarrow> filesystem \<Rightarrow> (error + certificate) \<times> filesystem" where
  "generate_certificate e a fs =
     (case build_certificate e a of
        Inl err \<Rightarrow> (Inl err, fs)
      | Inr (k, c) \<Rightarrow>
          (case write_file e KeyFile (key a) (PrivateKeyPEM k) fs of
             (Some err, fs1) \<Rightarrow> (Inl err, fs1)
           | (None, fs1) \<Rightarrow>
               (case write_file e CertFile (cert a) (CertificatePEM c) fs1 of
                  (Some err, fs2) \<Rightarrow> (Inl err, fs2)
                | (None, fs2) \<Rightarrow> (Inr c, fs2))))"

subsection \<open>\<^verbatim>\<open>check_existing_files\<close> and \<^verbatim>\<open>main\<close>\<close>





subsection \<open>The specification's reading of the resolver\<close>

text \<open>The specification's words for the SAN list: every entry is kept where it first
  occurs and dropped wherever a structurally equal one came before.\<close>

fun first_occurrences :: "'a list \<Rightarrow> 'a list" where
  "first_occurrences [] = []"
| "first_occurrences (x # xs) = x # first_occurrences (filter (\<lambda>y. y \<noteq> x) xs)"

text \<open>The two loopback addresses as address objects.\<close>

definition loopback_v4 :: ip_addr where
  "loopback_v4 = IPv4Address 2130706433"

definition loopback_v6 :: ip_addr where
  "loopback_v6 = IPv6Address 1 None"

text \<open>Steps 1 and 2 of the specification's algorithm: the DNS name of the host, and
  the loopback addresses when the host is \<^verbatim>\<open>localhost\<close>.\<close>

definition spec_implicit_entries :: "string \<Rightarrow> general_name list" where
  "spec_implicit_entries host =
     DNSName host #
       (if host = ''localhost'' then [IPAddress loopback_v4, IPAddress loopback_v6] else [])"

text \<open>Step 3 of the specification's algorithm, on one raw string: an address when it
  parses as one, a DNS name when it does not.\<close>

definition classify :: "string \<Rightarrow> general_name" where
  "classify s = (case ip_address s of Some ip \<Rightarrow> IPAddress ip | None \<Rightarrow> DNSName s)"

text \<open>The specification's resolver: the implicit entries, then the raw strings in
  input order, each classified and kept at its first occurrence only.\<close>

definition spec_san_list :: "string \<Rightarrow> string list \<Rightarrow> general_name list" where
  "spec_san_list host raw =
     first_occurrences (spec_implicit_entries host @ map classify raw)"

text \<open>The strings for which the library builds every DNS name that the resolver asks
  for: the host name is ASCII, and so is every raw string that is not an address.\<close>

definition san_acceptable :: "string \<Rightarrow> bool" where
  "san_acceptable s = (ip_address s \<noteq> None \<or> is_ascii s)"

definition resolver_accepts :: "string \<Rightarrow> string list \<Rightarrow> bool" where
  "resolver_accepts host raw = (is_ascii host \<and> list_all san_acceptable raw)"

text \<open>The loop of lines 127 to 130 on entries already built.\<close>

fun append_new :: "'a list \<Rightarrow> 'a list \<Rightarrow> 'a list" where
  "append_new acc [] = acc"
| "append_new acc (x # xs) = append_new (if x \<notin> set acc then acc @ [x] else acc) xs"

text \<open>The raw strings of \<^verbatim>\<open>args.sans\<close>, none when the option is absent.\<close>

definition raw_sans :: "string list option \<Rightarrow> string list" where
  "raw_sans extra = (case extra of None \<Rightarrow> [] | Some raw \<Rightarrow> raw)"

subsection \<open>Concrete runs\<close>

text \<open>The defaults of \<^verbatim>\<open>parse_args\<close>, and an environment in which nothing fails:
  the library's minimum is 1024 bits, it bounds the common name by 1 and 64 bytes, and
  the two clock readings are ten microseconds apart within one second.\<close>

definition default_args :: args where
  "default_args =
     \<lparr>hostname = ''localhost'', days = 365, key = ''cert.key'', cert = ''cert.crt'',
      size_arg = 2048, country = ''US'', state = ''State'', city = ''City'',
      org = ''Local'', sans = None, overwrite = False, verbose = False\<rparr>"

definition quiet_env :: env where
  "quiet_env =
     \<lparr>min_key_size = 1024,
      value_length_ok = (\<lambda>oid n. if oid = COMMON_NAME then 1 \<le> n \<and> n \<le> 64 else True),
      key_material = 7, random_serial = 12345,
      now1 = 1700000000000000, now2 = 1700000000000010, sign_fails = False,
      open_fails = (\<lambda>t. False), write_result = (\<lambda>t. WriteOk), user_input = None\<rparr>"

text \<open>The second clock reading falls one microsecond after the first, in the next
  second.\<close>

definition straddling_env :: env where
  "straddling_env = quiet_env\<lparr>now1 := 1700000000999999, now2 := 1700000001000000\<rparr>"

text \<open>A library release whose minimum is 512 bits.\<close>

definition lenient_env :: env where
  "lenient_env = quiet_env\<lparr>min_key_size := 512\<rparr>"



text \<open>An extra SAN that is neither an address nor ASCII: \<^verbatim>\<open>b\<close>, u with diaeresis,
  \<^verbatim>\<open>cher.example\<close>.\<close>

definition umlaut_san :: string where
  "umlaut_san = ''b'' @ [CHR 0xFC] @ ''cher.example''"

text \<open>The certificate of the run with the default arguments in the quiet
  environment.\<close>

definition quiet_cert :: certificate where
  "quiet_cert =
     \<lparr>subject = [NameAttribute COUNTRY_NAME ''US'',
          NameAttribute STATE_OR_PROVINCE_NAME ''State'',
          NameAttribute LOCALITY_NAME ''City'',
          NameAttribute ORGANIZATION_NAME ''Local'',
          NameAttribute COMMON_NAME ''localhost''],
      issuer = [NameAttribute COUNTRY_NAME ''US'',
          NameAttribute STATE_OR_PROVINCE_NAME ''State'',
          NameAttribute LOCALITY_NAME ''City'',
          NameAttribute ORGANIZATION_NAME ''Local'',
          NameAttribute COMMON_NAME ''localhost''],
      cert_public_key = RSAPublicKey 65537 2048 7, serial_number = 12345,
      not_valid_before = 1700000000, not_valid_after = 1731536000,
      extensions =
        [Extension (SubjectAlternativeName
           [DNSName ''localhost'', IPAddress loopback_v4, IPAddress loopback_v6]) False,
         Extension (KeyUsage the_key_usage) True],
      signature_hash = SHA256, signed_with = RSAPrivateKey 65537 2048 7\<rparr>"

section \<open>Lemmas about the model\<close>

lemma ip_address_loopback_v4: "ip_address ''127.0.0.1'' = Some loopback_v4"
  unfolding loopback_v4_def by code_simp

lemma ip_address_loopback_v6: "ip_address ''::1'' = Some loopback_v6"
  unfolding loopback_v6_def by code_simp

lemma loopbacks_differ: "loopback_v4 \<noteq> loopback_v6"
  by (simp add: loopback_v4_def loopback_v6_def)

lemma distinct_implicit_entries: "distinct (spec_implicit_entries host)"
  by (simp add: spec_implicit_entries_def loopbacks_differ)

lemma filter_notin_Cons:
  "filter (\<lambda>y. y \<notin> set acc) (filter (\<lambda>y. y \<noteq> a) xs) = filter (\<lambda>y. y \<notin> set (a # acc)) xs"
  by (induction xs) simp_all

lemma filter_notin_snoc:
  "filter (\<lambda>y. y \<noteq> a) (filter (\<lambda>y. y \<notin> set acc) xs) = filter (\<lambda>y. y \<notin> set (acc @ [a])) xs"
  by (induction xs) simp_all

lemma filter_neq_absent: "a \<notin> set acc \<Longrightarrow> filter (\<lambda>y. y \<noteq> a) acc = acc"
  by (induction acc) auto

lemma first_occurrences_append:
  "distinct acc \<Longrightarrow>
   first_occurrences (acc @ xs) = acc @ first_occurrences (filter (\<lambda>y. y \<notin> set acc) xs)"
proof (induction acc arbitrary: xs)
  case Nil
  then show ?case by simp
next
  case (Cons a acc)
  from Cons.prems have a: "a \<notin> set acc" and d: "distinct acc" by simp_all
  have "first_occurrences ((a # acc) @ xs)
        = a # first_occurrences (acc @ filter (\<lambda>y. y \<noteq> a) xs)"
    by (simp add: filter_neq_absent [OF a])
  also have "\<dots> = a # acc @ first_occurrences
                 (filter (\<lambda>y. y \<notin> set acc) (filter (\<lambda>y. y \<noteq> a) xs))"
    by (simp only: Cons.IH [OF d])
  also have "\<dots> = (a # acc) @ first_occurrences (filter (\<lambda>y. y \<notin> set (a # acc)) xs)"
    by (simp only: filter_notin_Cons append_Cons)
  finally show ?case .
qed

lemma append_new_first_occurrences:
  "distinct acc \<Longrightarrow>
   append_new acc xs = acc @ first_occurrences (filter (\<lambda>y. y \<notin> set acc) xs)"
proof (induction xs arbitrary: acc)
  case Nil
  then show ?case by simp
next
  case (Cons x xs)
  show ?case
  proof (cases "x \<in> set acc")
    case True
    then show ?thesis using Cons.IH [OF Cons.prems] by simp
  next
    case False
    have d: "distinct (acc @ [x])" using Cons.prems False by simp
    have "append_new acc (x # xs) = append_new (acc @ [x]) xs"
      using False by simp
    also have "\<dots> = (acc @ [x]) @ first_occurrences (filter (\<lambda>y. y \<notin> set (acc @ [x])) xs)"
      by (rule Cons.IH [OF d])
    also have "\<dots> = acc @ first_occurrences (x # filter (\<lambda>y. y \<notin> set acc) xs)"
      by (simp only: first_occurrences.simps filter_notin_snoc append_assoc append_Cons append_Nil)
    also have "x # filter (\<lambda>y. y \<notin> set acc) xs = filter (\<lambda>y. y \<notin> set acc) (x # xs)"
      using False by simp
    finally show ?thesis .
  qed
qed

lemma append_new_distinct: "distinct acc \<Longrightarrow> distinct (append_new acc xs)"
  by (induction xs arbitrary: acc) simp_all

lemma append_new_prefix: "\<exists>rest. append_new acc xs = acc @ rest"
proof (induction xs arbitrary: acc)
  case Nil
  then show ?case by simp
next
  case (Cons x xs)
  let ?acc' = "if x \<notin> set acc then acc @ [x] else acc"
  from Cons.IH [of ?acc'] obtain rest where r: "append_new ?acc' xs = ?acc' @ rest" by blast
  show ?case
  proof (cases "x \<in> set acc")
    case True
    with r show ?thesis by simp
  next
    case False
    with r have "append_new acc (x # xs) = acc @ (x # rest)" by simp
    then show ?thesis by blast
  qed
qed

lemma append_new_set: "set (append_new acc xs) = set acc \<union> set xs"
  by (induction xs arbitrary: acc) auto

lemma parse_san_eq:
  "parse_san s = (if san_acceptable s then Inr (classify s) else Inl (ValueError NonAsciiDNSName))"
  by (simp add: parse_san_def san_acceptable_def classify_def dns_name_def split: option.splits)

lemma add_sans_eq:
  "add_sans acc raw =
     (if list_all san_acceptable raw then Inr (append_new acc (map classify raw))
      else Inl (ValueError NonAsciiDNSName))"
  by (induction raw arbitrary: acc) (simp_all add: parse_san_eq)

lemma build_san_list_eq:
  "build_san_list host extra =
     (if resolver_accepts host (raw_sans extra)
      then Inr (append_new (spec_implicit_entries host) (map classify (raw_sans extra)))
      else Inl (ValueError NonAsciiDNSName))"
  by (simp add: build_san_list_def spec_implicit_entries_def raw_sans_def resolver_accepts_def
      dns_name_def add_sans_eq ip_address_loopback_v4 ip_address_loopback_v6 Let_def
      split: option.splits)

lemma append_new_spec:
  "append_new (spec_implicit_entries host) (map classify raw) = spec_san_list host raw"
proof -
  have "append_new (spec_implicit_entries host) (map classify raw)
        = spec_implicit_entries host @ first_occurrences
            (filter (\<lambda>y. y \<notin> set (spec_implicit_entries host)) (map classify raw))"
    by (rule append_new_first_occurrences [OF distinct_implicit_entries])
  also have "\<dots> = first_occurrences (spec_implicit_entries host @ map classify raw)"
    by (rule first_occurrences_append [OF distinct_implicit_entries, symmetric])
  finally show ?thesis by (simp add: spec_san_list_def)
qed

lemma build_san_list_Inr:
  assumes "build_san_list host extra = Inr l"
  shows "resolver_accepts host (raw_sans extra)"
    and "l = append_new (spec_implicit_entries host) (map classify (raw_sans extra))"
  using assms by (simp_all add: build_san_list_eq split: if_splits)

lemma all_or_first_error_five:
  assumes "all_or_first_error [r1, r2, r3, r4, r5] = Inr xs"
  shows "\<exists>x1 x2 x3 x4 x5. r1 = Inr x1 \<and> r2 = Inr x2 \<and> r3 = Inr x3 \<and> r4 = Inr x4 \<and> r5 = Inr x5
           \<and> xs = [x1, x2, x3, x4, x5]"
  using assms
  by (cases r1; cases r2; cases r3; cases r4; cases r5) auto

lemma name_attribute_Inr: "name_attribute e oid v = Inr x \<Longrightarrow> x = NameAttribute oid v"
  by (simp add: name_attribute_def split: if_splits)

lemma subject_name_Inr:
  assumes "subject_name e a = Inr subj"
  shows "subj =
           [NameAttribute COUNTRY_NAME (country a),
            NameAttribute STATE_OR_PROVINCE_NAME (state a),
            NameAttribute LOCALITY_NAME (city a),
            NameAttribute ORGANIZATION_NAME (org a),
            NameAttribute COMMON_NAME (hostname a)]"
proof -
  from all_or_first_error_five [OF assms [unfolded subject_name_def]]
  show ?thesis by (auto dest: name_attribute_Inr)
qed

lemma build_certificate_Inr:
  assumes "build_certificate e a = Inr (k, c)"
  shows "\<exists>subj san_list.
         subject_name e a = Inr subj
       \<and> build_san_list (hostname a) (sans a) = Inr san_list
       \<and> k = RSAPrivateKey 65537 (size_arg a) (key_material e)
       \<and> min_key_size e \<le> size_arg a \<and> \<not> sign_fails e
       \<and> now1 e \<le> now2 e + days a * 86400000000
       \<and> c = \<lparr>subject = subj, issuer = subj,
              cert_public_key = RSAPublicKey 65537 (size_arg a) (key_material e),
              serial_number = random_serial e,
              not_valid_before = now1 e div 1000000,
              not_valid_after = (now2 e + days a * 86400000000) div 1000000,
              extensions =
                [Extension (SubjectAlternativeName san_list) False,
                 Extension (KeyUsage the_key_usage) True],
              signature_hash = SHA256, signed_with = k\<rparr>"
  using assms
  by (auto simp: build_certificate_def rsa_generate_private_key_def
      builder_serial_number_def
      builder_not_valid_before_def timedelta_days_def datetime_add_def
      builder_not_valid_after_def sign_def Let_def
      split: sum.splits if_splits)

lemma generate_certificate_Inr:
  assumes "generate_certificate e a fs = (Inr c, fs')"
  shows "\<exists>k. build_certificate e a = Inr (k, c)"
  using assms
  by (auto simp: generate_certificate_def write_file_def
      split: sum.splits prod.splits option.splits if_splits write_outcome.splits)

lemma default_subject:
  "subject_name quiet_env default_args =
     Inr [NameAttribute COUNTRY_NAME ''US'',
          NameAttribute STATE_OR_PROVINCE_NAME ''State'',
          NameAttribute LOCALITY_NAME ''City'',
          NameAttribute ORGANIZATION_NAME ''Local'',
          NameAttribute COMMON_NAME ''localhost'']"
  by code_simp

lemma default_san_list:
  "build_san_list ''localhost'' None
     = Inr [DNSName ''localhost'', IPAddress loopback_v4, IPAddress loopback_v6]"
  unfolding loopback_v4_def loopback_v6_def by code_simp


lemma quiet_build:
  "build_certificate quiet_env default_args = Inr (RSAPrivateKey 65537 2048 7, quiet_cert)"
proof -
  have k: "rsa_generate_private_key quiet_env 65537 (size_arg default_args)
           = Inr (RSAPrivateKey 65537 2048 7)"
    by (simp add: rsa_generate_private_key_def quiet_env_def default_args_def)
  have s: "subject_name quiet_env default_args = Inr (subject quiet_cert)"
    by (simp add: default_subject quiet_cert_def)
  have l: "build_san_list (hostname default_args) (sans default_args)
           = Inr [DNSName ''localhost'', IPAddress loopback_v4, IPAddress loopback_v6]"
    by (simp add: default_args_def default_san_list)
  have n: "builder_serial_number (random_serial quiet_env) = Inr 12345"
    by (simp add: builder_serial_number_def quiet_env_def)
  have b: "builder_not_valid_before (now1 quiet_env) = Inr 1700000000000000"
    by (simp add: builder_not_valid_before_def quiet_env_def EARLIEST_UTC_TIME_def)
  have d: "timedelta_days (days default_args) = Inr 31536000000000"
    by (simp add: timedelta_days_def default_args_def)
  have t: "datetime_add (now2 quiet_env) 31536000000000 = Inr 1731536000000010"
    by (simp add: datetime_add_def quiet_env_def datetime_min_def datetime_max_def)
  have f: "builder_not_valid_after 1700000000000000 1731536000000010 = Inr 1731536000000010"
    by (simp add: builder_not_valid_after_def EARLIEST_UTC_TIME_def)
  have g: "\<not> sign_fails quiet_env"
    by (simp add: quiet_env_def)
  show ?thesis
    by (simp add: build_certificate_def k s l n b d t f g sign_def quiet_cert_def)
qed

lemma write_file_quiet:
  "write_file quiet_env t path data fs = (None, fs(path \<mapsto> Complete data))"
  by (simp add: write_file_def quiet_env_def)

lemma default_args_paths:
  "key default_args = ''cert.key''" "cert default_args = ''cert.crt''"
  by (simp_all add: default_args_def)

lemma quiet_run:
  "generate_certificate quiet_env default_args Map.empty =
     (Inr quiet_cert,
      [''cert.key'' \<mapsto> Complete (PrivateKeyPEM (RSAPrivateKey 65537 2048 7)),
       ''cert.crt'' \<mapsto> Complete (CertificatePEM quiet_cert)])"
  by (simp add: generate_certificate_def quiet_build write_file_quiet default_args_paths)



lemma build_certificate_run:
  assumes "subject_name e a = Inr subj"
    and "build_san_list (hostname a) (sans a) = Inr san_list"
    and "min_key_size e \<le> size_arg a"
    and "0 < random_serial e" and "random_serial e < 2 ^ 159"
    and "EARLIEST_UTC_TIME \<le> now1 e"
    and "- 999999999 \<le> days a" and "days a \<le> 999999999"
    and "datetime_min \<le> now2 e + days a * 86400000000"
    and "now2 e + days a * 86400000000 \<le> datetime_max"
    and "EARLIEST_UTC_TIME \<le> now2 e + days a * 86400000000"
    and "now1 e \<le> now2 e + days a * 86400000000"
    and "\<not> sign_fails e"
  shows "build_certificate e a =
     Inr (RSAPrivateKey 65537 (size_arg a) (key_material e),
          \<lparr>subject = subj, issuer = subj,
           cert_public_key = RSAPublicKey 65537 (size_arg a) (key_material e),
           serial_number = random_serial e,
           not_valid_before = now1 e div 1000000,
           not_valid_after = (now2 e + days a * 86400000000) div 1000000,
           extensions =
             [Extension (SubjectAlternativeName san_list) False,
              Extension (KeyUsage the_key_usage) True],
           signature_hash = SHA256,
           signed_with = RSAPrivateKey 65537 (size_arg a) (key_material e)\<rparr>)"
  using assms
  by (simp add: build_certificate_def rsa_generate_private_key_def
      builder_serial_number_def builder_not_valid_before_def timedelta_days_def
      datetime_add_def builder_not_valid_after_def sign_def Let_def)


lemma subject_name_cong:
  assumes "value_length_ok e' = value_length_ok e"
    and "country a' = country a" and "state a' = state a" and "city a' = city a"
    and "org a' = org a" and "hostname a' = hostname a"
  shows "subject_name e' a' = subject_name e a"
  using assms by (simp add: subject_name_def name_attribute_def)

lemma generate_certificate_Inl:
  "build_certificate e a = Inl err \<Longrightarrow> generate_certificate e a fs = (Inl err, fs)"
  by (simp add: generate_certificate_def)

lemma generate_certificate_quiet_io:
  assumes "build_certificate e a = Inr (k, c)"
    and "open_fails e = (\<lambda>t. False)" and "write_result e = (\<lambda>t. WriteOk)"
  shows "generate_certificate e a fs =
           (Inr c, fs(key a \<mapsto> Complete (PrivateKeyPEM k), cert a \<mapsto> Complete (CertificatePEM c)))"
  using assms by (simp add: generate_certificate_def write_file_def)

section \<open>The claims\<close>

text \<open>
  C1, as stated, fails: building a DNS name is not free of validation. A raw SAN that is
  not an address and holds a character outside ASCII makes \<^verbatim>\<open>x509.DNSName\<close> raise
  \<^verbatim>\<open>ValueError\<close> inside the handler of \<^verbatim>\<open>parse_san\<close>, and no list is built.
\<close>

theorem non_ascii_san_raises:
  "build_san_list ''example.com'' (Some [umlaut_san]) = Inl (ValueError NonAsciiDNSName)
   \<and> parse_san umlaut_san = Inl (ValueError NonAsciiDNSName)"
  by code_simp

text \<open>
  C1, amended. For every host name and every list of raw SAN strings: when the host name is
  ASCII and so is every raw string that is not an address, the list the program builds is
  the specification's (the implicit entries, then the raw strings in input order, each
  classified as an address when \<^verbatim>\<open>ip_address\<close> parses it and as a DNS name otherwise,
  each kept at its first occurrence only); otherwise the library's \<^verbatim>\<open>ValueError\<close> for
  a DNS name outside ASCII is raised. For host \<^verbatim>\<open>example.com\<close> with extra SANs
  \<^verbatim>\<open>example.com\<close>, \<^verbatim>\<open>10.0.0.5\<close>, \<^verbatim>\<open>*.example.com\<close> the list is the DNS name, the
  address 10.0.0.5 and the wildcard name.
\<close>

theorem san_resolver_first_occurrence_order:
  "build_san_list host extra =
     (if resolver_accepts host (raw_sans extra)
      then Inr (spec_san_list host (raw_sans extra))
      else Inl (ValueError NonAsciiDNSName))
   \<and> parse_san s =
       (if san_acceptable s then Inr (classify s) else Inl (ValueError NonAsciiDNSName))
   \<and> build_san_list ''example.com'' (Some [''example.com'', ''10.0.0.5'', ''*.example.com''])
       = Inr [DNSName ''example.com'', IPAddress (IPv4Address 167772165),
              DNSName ''*.example.com'']"
proof -
  have ex: "build_san_list ''example.com'' (Some [''example.com'', ''10.0.0.5'', ''*.example.com''])
       = Inr [DNSName ''example.com'', IPAddress (IPv4Address 167772165),
              DNSName ''*.example.com'']"
    by code_simp
  show ?thesis
    using ex by (simp add: build_san_list_eq append_new_spec parse_san_eq)
qed

text \<open>
  Host \<^verbatim>\<open>localhost\<close> with an address given twice and a DNS name between.
\<close>

theorem san_resolver_first_occurrence_order_witness:
  "build_san_list ''localhost'' (Some [''10.0.0.5'', ''a.example'', ''10.0.0.5''])
     = Inr [DNSName ''localhost'', IPAddress loopback_v4, IPAddress loopback_v6,
            IPAddress (IPv4Address 167772165), DNSName ''a.example'']
   \<and> parse_san ''a.example'' = Inr (DNSName ''a.example'')"
proof -
  have acc: "resolver_accepts ''localhost'' (raw_sans (Some [''10.0.0.5'', ''a.example'', ''10.0.0.5'']))"
    by code_simp
  have val: "spec_san_list ''localhost'' (raw_sans (Some [''10.0.0.5'', ''a.example'', ''10.0.0.5'']))
       = [DNSName ''localhost'', IPAddress loopback_v4, IPAddress loopback_v6,
          IPAddress (IPv4Address 167772165), DNSName ''a.example'']"
    unfolding loopback_v4_def loopback_v6_def by code_simp
  have ok: "san_acceptable ''a.example''" by code_simp
  have cl: "classify ''a.example'' = DNSName ''a.example''" by code_simp
  show ?thesis
    using san_resolver_first_occurrence_order
      [of "''localhost''" "Some [''10.0.0.5'', ''a.example'', ''10.0.0.5'']" "''a.example''"]
    by (simp add: acc val ok cl)
qed

text \<open>
  C2, as stated, fails: a host other than \<^verbatim>\<open>localhost\<close> has both loopback addresses
  after its DNS entry when the user passes them as SANs.
\<close>

theorem loopback_entries_without_localhost:
  "''example.com'' \<noteq> ''localhost''
   \<and> build_san_list ''example.com'' (Some [''127.0.0.1'', ''::1''])
       = Inr [DNSName ''example.com'', IPAddress (IPv4Address 2130706433),
              IPAddress (IPv6Address 1 None)]"
  by code_simp

text \<open>
  C2, amended. Whenever a SAN list is built, which is whenever the library accepts the DNS
  names: for host \<^verbatim>\<open>localhost\<close> the list starts with the DNS name and the two loopback
  addresses whatever the extra SANs are; for any other host, \<^verbatim>\<open>LOCALHOST\<close> included,
  the DNS name is followed only by entries classified from the extra SANs. With host
  \<^verbatim>\<open>localhost\<close> and no extra SANs the list is exactly the three entries.
\<close>

theorem localhost_loopback_entries:
  "(host = ''localhost'' \<and> resolver_accepts host (raw_sans extra) \<longrightarrow>
      (\<exists>rest. build_san_list host extra
         = Inr (DNSName ''localhost'' # IPAddress loopback_v4 # IPAddress loopback_v6 # rest)))
   \<and> (host \<noteq> ''localhost'' \<and> resolver_accepts host (raw_sans extra) \<longrightarrow>
      (\<exists>rest. build_san_list host extra = Inr (DNSName host # rest)
         \<and> set rest \<subseteq> classify ` set (raw_sans extra)))
   \<and> (build_san_list host extra = Inr l \<longrightarrow> resolver_accepts host (raw_sans extra))
   \<and> build_san_list ''localhost'' None
       = Inr [DNSName ''localhost'', IPAddress loopback_v4, IPAddress loopback_v6]
   \<and> build_san_list ''localhost'' (Some [])
       = Inr [DNSName ''localhost'', IPAddress loopback_v4, IPAddress loopback_v6]
   \<and> build_san_list ''LOCALHOST'' None = Inr [DNSName ''LOCALHOST'']"
proof -
  let ?xs = "map classify (raw_sans extra)"
  obtain rest where r:
    "append_new (spec_implicit_entries host) ?xs = spec_implicit_entries host @ rest"
    using append_new_prefix by blast
  have d: "distinct (spec_implicit_entries host @ rest)"
    using append_new_distinct [OF distinct_implicit_entries, of host ?xs] r by simp
  have s: "set (spec_implicit_entries host @ rest)
           = set (spec_implicit_entries host) \<union> set ?xs"
    using append_new_set [of "spec_implicit_entries host" ?xs] r by simp
  have sub: "set rest \<subseteq> classify ` set (raw_sans extra)"
    using d s by auto
  have a: "host = ''localhost'' \<and> resolver_accepts host (raw_sans extra) \<longrightarrow>
      (\<exists>rest. build_san_list host extra
         = Inr (DNSName ''localhost'' # IPAddress loopback_v4 # IPAddress loopback_v6 # rest))"
    using r by (auto simp: build_san_list_eq spec_implicit_entries_def)
  have b: "host \<noteq> ''localhost'' \<and> resolver_accepts host (raw_sans extra) \<longrightarrow>
      (\<exists>rest. build_san_list host extra = Inr (DNSName host # rest)
         \<and> set rest \<subseteq> classify ` set (raw_sans extra))"
    using r sub by (auto simp: build_san_list_eq spec_implicit_entries_def)
  have acc: "build_san_list host extra = Inr l \<longrightarrow> resolver_accepts host (raw_sans extra)"
    using build_san_list_Inr(1) by blast
  have c: "build_san_list ''localhost'' None
       = Inr [DNSName ''localhost'', IPAddress loopback_v4, IPAddress loopback_v6]"
    by (rule default_san_list)
  have c': "build_san_list ''localhost'' (Some [])
       = Inr [DNSName ''localhost'', IPAddress loopback_v4, IPAddress loopback_v6]"
    unfolding loopback_v4_def loopback_v6_def by code_simp
  have e: "build_san_list ''LOCALHOST'' None = Inr [DNSName ''LOCALHOST'']"
    by code_simp
  from a b acc c c' e show ?thesis by blast
qed

text \<open>
  Host \<^verbatim>\<open>localhost\<close> and host \<^verbatim>\<open>example.com\<close>, each with one extra SAN.
\<close>

theorem localhost_loopback_entries_witness:
  "(\<exists>rest. build_san_list ''localhost'' (Some [''10.0.0.5''])
       = Inr (DNSName ''localhost'' # IPAddress loopback_v4 # IPAddress loopback_v6 # rest))
   \<and> (\<exists>rest. build_san_list ''example.com'' (Some [''10.0.0.5''])
         = Inr (DNSName ''example.com'' # rest)
       \<and> set rest \<subseteq> classify ` set (raw_sans (Some [''10.0.0.5''])))"
proof -
  have a: "resolver_accepts ''localhost'' (raw_sans (Some [''10.0.0.5'']))" by code_simp
  have b: "resolver_accepts ''example.com'' (raw_sans (Some [''10.0.0.5'']))" by code_simp
  show ?thesis
    using localhost_loopback_entries [of "''localhost''" "Some [''10.0.0.5'']"]
      localhost_loopback_entries [of "''example.com''" "Some [''10.0.0.5'']"] a b
    by simp
qed

text \<open>
  C3, as stated, fails: the two clock readings are separate calls, and when a second
  boundary falls between them a one-day certificate is valid for 86401 seconds.
\<close>

theorem validity_straddles_second:
  "fst (generate_certificate straddling_env (default_args\<lparr>days := 1\<rparr>) Map.empty)
     = Inr (quiet_cert\<lparr>not_valid_before := 1700000000, not_valid_after := 1700086401\<rparr>)
   \<and> (1700086401 :: int) - 1700000000 \<noteq> 86400 * days (default_args\<lparr>days := 1\<rparr>)"
proof -
  have s: "subject_name straddling_env (default_args\<lparr>days := 1\<rparr>) = subject_name quiet_env default_args"
    by (rule subject_name_cong) (simp_all add: straddling_env_def quiet_env_def default_args_def)
  then have s': "subject_name straddling_env (default_args\<lparr>days := 1\<rparr>) = Inr (subject quiet_cert)"
    by (simp add: default_subject quiet_cert_def)
  have l: "build_san_list (hostname (default_args\<lparr>days := 1\<rparr>)) (sans (default_args\<lparr>days := 1\<rparr>))
           = Inr [DNSName ''localhost'', IPAddress loopback_v4, IPAddress loopback_v6]"
    by (simp add: default_args_def default_san_list)
  have "build_certificate straddling_env (default_args\<lparr>days := 1\<rparr>) =
     Inr (RSAPrivateKey 65537 (size_arg (default_args\<lparr>days := 1\<rparr>)) (key_material straddling_env),
          \<lparr>subject = subject quiet_cert, issuer = subject quiet_cert,
           cert_public_key = RSAPublicKey 65537 (size_arg (default_args\<lparr>days := 1\<rparr>)) (key_material straddling_env),
           serial_number = random_serial straddling_env,
           not_valid_before = now1 straddling_env div 1000000,
           not_valid_after = (now2 straddling_env + days (default_args\<lparr>days := 1\<rparr>) * 86400000000) div 1000000,
           extensions =
             [Extension (SubjectAlternativeName
                [DNSName ''localhost'', IPAddress loopback_v4, IPAddress loopback_v6]) False,
              Extension (KeyUsage the_key_usage) True],
           signature_hash = SHA256,
           signed_with = RSAPrivateKey 65537 (size_arg (default_args\<lparr>days := 1\<rparr>)) (key_material straddling_env)\<rparr>)"
    by (rule build_certificate_run [OF s' l])
      (simp_all add: straddling_env_def quiet_env_def default_args_def
        EARLIEST_UTC_TIME_def datetime_min_def datetime_max_def)
  then have b: "build_certificate straddling_env (default_args\<lparr>days := 1\<rparr>) = Inr (RSAPrivateKey 65537 2048 7, quiet_cert\<lparr>not_valid_before := 1700000000, not_valid_after := 1700086401\<rparr>)"
    by (simp add: straddling_env_def quiet_env_def default_args_def quiet_cert_def)
  have io: "open_fails straddling_env = (\<lambda>t. False)" "write_result straddling_env = (\<lambda>t. WriteOk)"
    by (simp_all add: straddling_env_def quiet_env_def)
  show ?thesis
    by (simp add: generate_certificate_quiet_io [OF b io])
qed

text \<open>
  C3, amended. For every generated certificate, notAfter minus notBefore is the requested
  number of days plus the whole seconds between the two clock readings; it is exactly the
  requested number of days when both readings fall in the same second, and it is never
  negative.
\<close>

theorem validity_is_days_plus_clock_gap:
  assumes "generate_certificate e a fs = (Inr c, fs')"
  shows "not_valid_after c - not_valid_before c
           = 86400 * days a + (now2 e div 1000000 - now1 e div 1000000)
       \<and> (now2 e div 1000000 = now1 e div 1000000 \<longrightarrow>
            not_valid_after c - not_valid_before c = 86400 * days a)
       \<and> 0 \<le> not_valid_after c - not_valid_before c"
proof -
  from generate_certificate_Inr [OF assms] obtain k where "build_certificate e a = Inr (k, c)"
    by blast
  from build_certificate_Inr [OF this]
  have le: "now1 e \<le> now2 e + days a * 86400000000"
    and nb: "not_valid_before c = now1 e div 1000000"
    and na: "not_valid_after c = (now2 e + days a * 86400000000) div 1000000"
    by auto
  have "now2 e + days a * 86400000000 = now2 e + (days a * 86400) * 1000000" by simp
  then have split: "(now2 e + days a * 86400000000) div 1000000
                    = now2 e div 1000000 + days a * 86400"
    by (simp only: div_mult_self1 [of 1000000 "now2 e" "days a * 86400"])
  have mono: "now1 e div 1000000 \<le> (now2 e + days a * 86400000000) div 1000000"
    using le by (rule zdiv_mono1) simp
  show ?thesis using nb na split mono by simp
qed

text \<open>
  The run with the default arguments: 365 days exactly.
\<close>

theorem validity_is_days_plus_clock_gap_witness:
  "not_valid_after quiet_cert - not_valid_before quiet_cert = 86400 * 365"
  using validity_is_days_plus_clock_gap [OF quiet_run]
  by (simp add: quiet_env_def default_args_def)

text \<open>
  C4, as stated, fails: the program has no check on the day count, and with 0 days the
  library's order check passes, so a certificate is produced.
\<close>

theorem zero_days_accepted:
  "days (default_args\<lparr>days := 0\<rparr>) \<le> 0
   \<and> fst (generate_certificate quiet_env (default_args\<lparr>days := 0\<rparr>) Map.empty)
     = Inr (quiet_cert\<lparr>not_valid_after := 1700000000\<rparr>)"
proof -
  have s: "subject_name quiet_env (default_args\<lparr>days := 0\<rparr>) = subject_name quiet_env default_args"
    by (rule subject_name_cong) (simp_all add: quiet_env_def default_args_def)
  then have s': "subject_name quiet_env (default_args\<lparr>days := 0\<rparr>) = Inr (subject quiet_cert)"
    by (simp add: default_subject quiet_cert_def)
  have l: "build_san_list (hostname (default_args\<lparr>days := 0\<rparr>)) (sans (default_args\<lparr>days := 0\<rparr>))
           = Inr [DNSName ''localhost'', IPAddress loopback_v4, IPAddress loopback_v6]"
    by (simp add: default_args_def default_san_list)
  have "build_certificate quiet_env (default_args\<lparr>days := 0\<rparr>) =
     Inr (RSAPrivateKey 65537 (size_arg (default_args\<lparr>days := 0\<rparr>)) (key_material quiet_env),
          \<lparr>subject = subject quiet_cert, issuer = subject quiet_cert,
           cert_public_key = RSAPublicKey 65537 (size_arg (default_args\<lparr>days := 0\<rparr>)) (key_material quiet_env),
           serial_number = random_serial quiet_env,
           not_valid_before = now1 quiet_env div 1000000,
           not_valid_after = (now2 quiet_env + days (default_args\<lparr>days := 0\<rparr>) * 86400000000) div 1000000,
           extensions =
             [Extension (SubjectAlternativeName
                [DNSName ''localhost'', IPAddress loopback_v4, IPAddress loopback_v6]) False,
              Extension (KeyUsage the_key_usage) True],
           signature_hash = SHA256,
           signed_with = RSAPrivateKey 65537 (size_arg (default_args\<lparr>days := 0\<rparr>)) (key_material quiet_env)\<rparr>)"
    by (rule build_certificate_run [OF s' l])
      (simp_all add: quiet_env_def default_args_def
        EARLIEST_UTC_TIME_def datetime_min_def datetime_max_def)
  then have b: "build_certificate quiet_env (default_args\<lparr>days := 0\<rparr>) = Inr (RSAPrivateKey 65537 2048 7, quiet_cert\<lparr>not_valid_after := 1700000000\<rparr>)"
    by (simp add: quiet_env_def default_args_def quiet_cert_def)
  have io: "open_fails quiet_env = (\<lambda>t. False)" "write_result quiet_env = (\<lambda>t. WriteOk)"
    by (simp_all add: quiet_env_def)
  show ?thesis
    by (simp add: generate_certificate_quiet_io [OF b io])
qed

text \<open>
  C4, amended. For every request with a negative day count, when the two clock readings
  are less than a day apart, generation fails before any file is written, with the error
  of the first check that fails, in the order of the source: the key size, the name
  attributes, the DNS names of the SAN list, the serial number, the range of notBefore,
  the date arithmetic, the range of notAfter; when all of these pass, the error is the
  library's refusal of a notAfter that precedes notBefore.
\<close>

theorem negative_days_rejected:
  assumes "days a < 0" and "now2 e - now1 e < 86400000000"
  shows "generate_certificate e a fs =
    (Inl (if size_arg a < min_key_size e then ValueError KeySizeBelowMinimum
          else case subject_name e a of
            Inl err \<Rightarrow> err
          | Inr subj \<Rightarrow>
              (case build_san_list (hostname a) (sans a) of
                 Inl err \<Rightarrow> err
               | Inr san_list \<Rightarrow>
                   if random_serial e \<le> 0 \<or> 2 ^ 159 \<le> random_serial e
                     then ValueError BadSerialNumber
                   else if now1 e < EARLIEST_UTC_TIME then ValueError BeforeEarliestTime
                   else if days a < - 999999999
                          \<or> now2 e + days a * 86400000000 < datetime_min
                          \<or> datetime_max < now2 e + days a * 86400000000
                     then OverflowError
                   else if now2 e + days a * 86400000000 < EARLIEST_UTC_TIME
                     then ValueError BeforeEarliestTime
                   else ValueError NotAfterPrecedesNotBefore)),
     fs)"
proof -
  have lt: "now2 e + days a * 86400000000 < now1 e"
    using assms by simp
  have "build_certificate e a =
    Inl (if size_arg a < min_key_size e then ValueError KeySizeBelowMinimum
          else case subject_name e a of
            Inl err \<Rightarrow> err
          | Inr subj \<Rightarrow>
              (case build_san_list (hostname a) (sans a) of
                 Inl err \<Rightarrow> err
               | Inr san_list \<Rightarrow>
                   if random_serial e \<le> 0 \<or> 2 ^ 159 \<le> random_serial e
                     then ValueError BadSerialNumber
                   else if now1 e < EARLIEST_UTC_TIME then ValueError BeforeEarliestTime
                   else if days a < - 999999999
                          \<or> now2 e + days a * 86400000000 < datetime_min
                          \<or> datetime_max < now2 e + days a * 86400000000
                     then OverflowError
                   else if now2 e + days a * 86400000000 < EARLIEST_UTC_TIME
                     then ValueError BeforeEarliestTime
                   else ValueError NotAfterPrecedesNotBefore))"
    using lt assms(1)
    by (simp add: build_certificate_def rsa_generate_private_key_def
        builder_serial_number_def builder_not_valid_before_def timedelta_days_def
        datetime_add_def builder_not_valid_after_def Let_def
        split: sum.splits)
  then show ?thesis by (rule generate_certificate_Inl)
qed

text \<open>
  The default arguments with \<^verbatim>\<open>--days -5\<close>, and the same with
  \<^verbatim>\<open>--country USA\<close>, where the country name fails first.
\<close>

theorem negative_days_rejected_witness:
  "generate_certificate quiet_env (default_args\<lparr>days := - 5\<rparr>) Map.empty
     = (Inl (ValueError NotAfterPrecedesNotBefore), Map.empty)
   \<and> generate_certificate quiet_env (default_args\<lparr>days := - 5, country := ''USA''\<rparr>) Map.empty
     = (Inl (ValueError CountryNameNotTwoBytes), Map.empty)"
proof -
  let ?a = "default_args\<lparr>days := - 5\<rparr>"
  let ?b = "default_args\<lparr>days := - 5, country := ''USA''\<rparr>"
  have neg: "days ?a < 0" "days ?b < 0"
    by simp_all
  have gap: "now2 quiet_env - now1 quiet_env < 86400000000"
    by (simp add: quiet_env_def)
  have k: "\<not> size_arg ?a < min_key_size quiet_env" "\<not> size_arg ?b < min_key_size quiet_env"
    by (simp_all add: quiet_env_def default_args_def)
  have "subject_name quiet_env ?a = subject_name quiet_env default_args"
    by (rule subject_name_cong) (simp_all add: default_args_def)
  then have s: "subject_name quiet_env ?a = Inr (subject quiet_cert)"
    by (simp add: default_subject quiet_cert_def)
  have u: "subject_name quiet_env ?b = Inl (ValueError CountryNameNotTwoBytes)"
    by code_simp
  have l: "build_san_list (hostname ?a) (sans ?a)
           = Inr [DNSName ''localhost'', IPAddress loopback_v4, IPAddress loopback_v6]"
    by (simp add: default_args_def default_san_list)
  have n: "\<not> (random_serial quiet_env \<le> 0 \<or> 2 ^ 159 \<le> random_serial quiet_env)"
    "\<not> now1 quiet_env < EARLIEST_UTC_TIME"
    "\<not> (days ?a < - 999999999
        \<or> now2 quiet_env + days ?a * 86400000000 < datetime_min
        \<or> datetime_max < now2 quiet_env + days ?a * 86400000000)"
    "\<not> now2 quiet_env + days ?a * 86400000000 < EARLIEST_UTC_TIME"
    by (simp_all add: quiet_env_def EARLIEST_UTC_TIME_def datetime_min_def datetime_max_def)
  have first: "generate_certificate quiet_env ?a Map.empty
     = (Inl (ValueError NotAfterPrecedesNotBefore), Map.empty)"
    by (simp only: negative_days_rejected [OF neg(1) gap] k s l n if_False sum.case)
  have second: "generate_certificate quiet_env ?b Map.empty
     = (Inl (ValueError CountryNameNotTwoBytes), Map.empty)"
    by (simp only: negative_days_rejected [OF neg(2) gap] k u if_False sum.case)
  from first second show ?thesis by blast
qed

text \<open>
  C5, as stated, fails: the program passes the size to the library unchecked, and with a
  library whose minimum is 512 bits a 512-bit request yields a key and a certificate.
\<close>

theorem small_key_accepted_by_lenient_library:
  "size_arg (default_args\<lparr>size_arg := 512\<rparr>) < 1024
   \<and> fst (generate_certificate lenient_env (default_args\<lparr>size_arg := 512\<rparr>) Map.empty)
     = Inr (quiet_cert\<lparr>cert_public_key := RSAPublicKey 65537 512 7,
                       signed_with := RSAPrivateKey 65537 512 7\<rparr>)"
proof -
  have s: "subject_name lenient_env (default_args\<lparr>size_arg := 512\<rparr>) = subject_name quiet_env default_args"
    by (rule subject_name_cong) (simp_all add: lenient_env_def quiet_env_def default_args_def)
  then have s': "subject_name lenient_env (default_args\<lparr>size_arg := 512\<rparr>) = Inr (subject quiet_cert)"
    by (simp add: default_subject quiet_cert_def)
  have l: "build_san_list (hostname (default_args\<lparr>size_arg := 512\<rparr>)) (sans (default_args\<lparr>size_arg := 512\<rparr>))
           = Inr [DNSName ''localhost'', IPAddress loopback_v4, IPAddress loopback_v6]"
    by (simp add: default_args_def default_san_list)
  have "build_certificate lenient_env (default_args\<lparr>size_arg := 512\<rparr>) =
     Inr (RSAPrivateKey 65537 (size_arg (default_args\<lparr>size_arg := 512\<rparr>)) (key_material lenient_env),
          \<lparr>subject = subject quiet_cert, issuer = subject quiet_cert,
           cert_public_key = RSAPublicKey 65537 (size_arg (default_args\<lparr>size_arg := 512\<rparr>)) (key_material lenient_env),
           serial_number = random_serial lenient_env,
           not_valid_before = now1 lenient_env div 1000000,
           not_valid_after = (now2 lenient_env + days (default_args\<lparr>size_arg := 512\<rparr>) * 86400000000) div 1000000,
           extensions =
             [Extension (SubjectAlternativeName
                [DNSName ''localhost'', IPAddress loopback_v4, IPAddress loopback_v6]) False,
              Extension (KeyUsage the_key_usage) True],
           signature_hash = SHA256,
           signed_with = RSAPrivateKey 65537 (size_arg (default_args\<lparr>size_arg := 512\<rparr>)) (key_material lenient_env)\<rparr>)"
    by (rule build_certificate_run [OF s' l])
      (simp_all add: lenient_env_def quiet_env_def default_args_def
        EARLIEST_UTC_TIME_def datetime_min_def datetime_max_def)
  then have b: "build_certificate lenient_env (default_args\<lparr>size_arg := 512\<rparr>) = Inr (RSAPrivateKey 65537 512 7, quiet_cert\<lparr>cert_public_key := RSAPublicKey 65537 512 7,
                       signed_with := RSAPrivateKey 65537 512 7\<rparr>)"
    by (simp add: lenient_env_def quiet_env_def default_args_def quiet_cert_def)
  have io: "open_fails lenient_env = (\<lambda>t. False)" "write_result lenient_env = (\<lambda>t. WriteOk)"
    by (simp_all add: lenient_env_def quiet_env_def)
  show ?thesis
    by (simp add: generate_certificate_quiet_io [OF b io])
qed

text \<open>
  C5, amended. For every request with a key size below the minimum of the installed
  library, key generation fails with the library's \<^verbatim>\<open>ValueError\<close> and no file is
  written.
\<close>

theorem key_size_below_library_minimum:
  assumes "size_arg a < min_key_size e"
  shows "generate_certificate e a fs = (Inl (ValueError KeySizeBelowMinimum), fs)"
  using assms
  by (simp add: generate_certificate_def build_certificate_def rsa_generate_private_key_def)

text \<open>
  A library with a minimum of 1024 bits and \<^verbatim>\<open>--size 512\<close>.
\<close>

theorem key_size_below_library_minimum_witness:
  "generate_certificate quiet_env (default_args\<lparr>size_arg := 512\<rparr>) Map.empty
     = (Inl (ValueError KeySizeBelowMinimum), Map.empty)"
  using key_size_below_library_minimum [of "default_args\<lparr>size_arg := 512\<rparr>" quiet_env Map.empty]
  by (simp add: quiet_env_def default_args_def)

text \<open>
  C6. Every generated certificate has exactly two extensions: the subject alternative
  names, not critical, holding the SAN list, and the key usage, critical, with
  \<^verbatim>\<open>digital_signature\<close> and \<^verbatim>\<open>key_encipherment\<close> set and every other bit clear.
\<close>

theorem extensions_of_every_certificate:
  assumes "generate_certificate e a fs = (Inr c, fs')"
  shows "\<exists>san_list. build_san_list (hostname a) (sans a) = Inr san_list
           \<and> extensions c =
               [Extension (SubjectAlternativeName san_list) False,
                Extension (KeyUsage
                  \<lparr>digital_signature = True, content_commitment = False,
                   key_encipherment = True, data_encipherment = False,
                   key_agreement = False, key_cert_sign = False, crl_sign = False,
                   encipher_only = False, decipher_only = False\<rparr>) True]"
proof -
  from generate_certificate_Inr [OF assms] obtain k where "build_certificate e a = Inr (k, c)"
    by blast
  from build_certificate_Inr [OF this] show ?thesis
    by (auto simp: the_key_usage_def)
qed

text \<open>
  The run with the default arguments.
\<close>

theorem extensions_of_every_certificate_witness:
  "extensions quiet_cert =
     [Extension (SubjectAlternativeName
        [DNSName ''localhost'', IPAddress loopback_v4, IPAddress loopback_v6]) False,
      Extension (KeyUsage
        \<lparr>digital_signature = True, content_commitment = False,
         key_encipherment = True, data_encipherment = False,
         key_agreement = False, key_cert_sign = False, crl_sign = False,
         encipher_only = False, decipher_only = False\<rparr>) True]"
  using extensions_of_every_certificate [OF quiet_run]
  by (simp add: default_args_def default_san_list)

text \<open>
  C7, as stated, fails for address literals: two different spellings of one address are
  structurally equal entries, so the second is dropped.
\<close>

theorem ip_spellings_deduplicated:
  "''0:0:0:0:0:0:0:1'' \<noteq> ''::1''
   \<and> parse_san ''0:0:0:0:0:0:0:1'' = parse_san ''::1''
   \<and> build_san_list ''localhost'' (Some [''0:0:0:0:0:0:0:1''])
       = Inr [DNSName ''localhost'', IPAddress (IPv4Address 2130706433),
              IPAddress (IPv6Address 1 None)]"
  by code_simp

text \<open>
  C7, amended. A SAN list that is built never holds two equal entries, and one is built
  whenever the library accepts the DNS names. Two raw strings give equal entries exactly
  when both parse to the same address, or neither parses and the strings are identical:
  DNS names are compared without case normalisation, addresses by their parsed value. So
  \<^verbatim>\<open>LOCALHOST\<close> is kept next to \<^verbatim>\<open>localhost\<close>.
\<close>

theorem san_list_distinct_structural:
  "(build_san_list host extra = Inr l \<longrightarrow> distinct l)
   \<and> (resolver_accepts host (raw_sans extra) \<longrightarrow>
        (\<exists>san_list. build_san_list host extra = Inr san_list \<and> distinct san_list))
   \<and> (parse_san s = Inr x \<and> parse_san t = Inr y \<longrightarrow>
        (x = y \<longleftrightarrow>
          (case ip_address s of
             Some ip \<Rightarrow> ip_address t = Some ip
           | None \<Rightarrow> ip_address t = None \<and> s = t)))
   \<and> build_san_list ''localhost'' (Some [''LOCALHOST''])
       = Inr [DNSName ''localhost'', IPAddress (IPv4Address 2130706433),
              IPAddress (IPv6Address 1 None), DNSName ''LOCALHOST'']"
proof -
  have dn: "distinct (append_new (spec_implicit_entries host) (map classify (raw_sans extra)))"
    by (rule append_new_distinct [OF distinct_implicit_entries])
  have d1: "build_san_list host extra = Inr l \<longrightarrow> distinct l"
    using dn by (auto dest: build_san_list_Inr(2))
  have d2: "resolver_accepts host (raw_sans extra) \<longrightarrow>
        (\<exists>san_list. build_san_list host extra = Inr san_list \<and> distinct san_list)"
    using dn by (simp add: build_san_list_eq)
  have p: "parse_san s = Inr x \<and> parse_san t = Inr y \<longrightarrow>
        (x = y \<longleftrightarrow>
          (case ip_address s of
             Some ip \<Rightarrow> ip_address t = Some ip
           | None \<Rightarrow> ip_address t = None \<and> s = t))"
    by (auto simp: parse_san_def dns_name_def split: option.splits if_splits)
  have x: "build_san_list ''localhost'' (Some [''LOCALHOST''])
       = Inr [DNSName ''localhost'', IPAddress (IPv4Address 2130706433),
              IPAddress (IPv6Address 1 None), DNSName ''LOCALHOST'']"
    by code_simp
  from d1 d2 p x show ?thesis by blast
qed

text \<open>
  Host \<^verbatim>\<open>localhost\<close> with the extra SAN \<^verbatim>\<open>LOCALHOST\<close>.
\<close>

theorem san_list_distinct_structural_witness:
  "distinct [DNSName ''localhost'', IPAddress (IPv4Address 2130706433),
             IPAddress (IPv6Address 1 None), DNSName ''LOCALHOST'']
   \<and> (\<exists>san_list. build_san_list ''localhost'' (Some [''LOCALHOST'']) = Inr san_list
         \<and> distinct san_list)
   \<and> DNSName ''LOCALHOST'' \<noteq> DNSName ''localhost''"
proof -
  have b: "build_san_list ''localhost'' (Some [''LOCALHOST''])
       = Inr [DNSName ''localhost'', IPAddress (IPv4Address 2130706433),
              IPAddress (IPv6Address 1 None), DNSName ''LOCALHOST'']"
    by code_simp
  have acc: "resolver_accepts ''localhost'' (raw_sans (Some [''LOCALHOST'']))"
    by code_simp
  have p1: "parse_san ''LOCALHOST'' = Inr (DNSName ''LOCALHOST'')" by code_simp
  have p2: "parse_san ''localhost'' = Inr (DNSName ''localhost'')" by code_simp
  have n: "ip_address ''LOCALHOST'' = None" by code_simp
  show ?thesis
    using san_list_distinct_structural
      [of "''localhost''" "Some [''LOCALHOST'']"
          "[DNSName ''localhost'', IPAddress (IPv4Address 2130706433),
            IPAddress (IPv6Address 1 None), DNSName ''LOCALHOST'']"
          "''LOCALHOST''" "DNSName ''LOCALHOST''" "''localhost''" "DNSName ''localhost''"]
      b acc p1 p2 n
    by simp
qed

text \<open>
  C8. Every SAN list that is built starts with the DNS name of the host, and one is built
  whenever the library accepts the DNS names; in every generated certificate the common
  name of the subject is the host name and the SAN extension starts with its DNS name.
\<close>

theorem hostname_is_a_san:
  "(build_san_list host extra = Inr l \<longrightarrow> (\<exists>rest. l = DNSName host # rest))
   \<and> (resolver_accepts host (raw_sans extra) \<longrightarrow>
        (\<exists>rest. build_san_list host extra = Inr (DNSName host # rest)))
   \<and> (generate_certificate e a fs = (Inr c, fs') \<longrightarrow>
        NameAttribute COMMON_NAME (hostname a) \<in> set (subject c)
        \<and> (\<exists>rest. extensions c =
              [Extension (SubjectAlternativeName (DNSName (hostname a) # rest)) False,
               Extension (KeyUsage the_key_usage) True]))"
proof -
  have pre: "\<exists>rest. append_new (spec_implicit_entries h) xs = DNSName h # rest" for h xs
    using append_new_prefix [of "spec_implicit_entries h" xs]
    by (auto simp: spec_implicit_entries_def)
  have a1: "build_san_list h x = Inr l' \<longrightarrow> (\<exists>rest. l' = DNSName h # rest)" for h x l'
    using pre by (auto dest: build_san_list_Inr(2))
  have a2: "resolver_accepts host (raw_sans extra) \<longrightarrow>
        (\<exists>rest. build_san_list host extra = Inr (DNSName host # rest))"
    using pre by (simp add: build_san_list_eq)
  have b: "NameAttribute COMMON_NAME (hostname a) \<in> set (subject c)
        \<and> (\<exists>rest. extensions c =
              [Extension (SubjectAlternativeName (DNSName (hostname a) # rest)) False,
               Extension (KeyUsage the_key_usage) True])"
    if "generate_certificate e a fs = (Inr c, fs')"
  proof -
    from generate_certificate_Inr [OF that] obtain k where "build_certificate e a = Inr (k, c)"
      by blast
    from build_certificate_Inr [OF this] obtain subj san_list where
      s: "subject_name e a = Inr subj" and l: "build_san_list (hostname a) (sans a) = Inr san_list"
      and c: "subject c = subj"
        "extensions c = [Extension (SubjectAlternativeName san_list) False,
                         Extension (KeyUsage the_key_usage) True]"
      by auto
    from a1 l obtain rest where "san_list = DNSName (hostname a) # rest" by blast
    with c subject_name_Inr [OF s] show ?thesis by simp
  qed
  from a1 a2 b show ?thesis by blast
qed

text \<open>
  The run with the default arguments.
\<close>

theorem hostname_is_a_san_witness:
  "NameAttribute COMMON_NAME ''localhost'' \<in> set (subject quiet_cert)
   \<and> (\<exists>rest. extensions quiet_cert =
          [Extension (SubjectAlternativeName (DNSName ''localhost'' # rest)) False,
           Extension (KeyUsage the_key_usage) True])"
  using hostname_is_a_san [of "''localhost''" None _ quiet_env default_args Map.empty
      quiet_cert] quiet_run
  by (simp add: default_args_def)

text \<open>
  C9. In every generated certificate the subject is the sequence country, state or
  province, locality, organisation, common name, taken from the arguments and the host
  name, and the issuer is the subject.
\<close>

theorem subject_and_issuer:
  assumes "generate_certificate e a fs = (Inr c, fs')"
  shows "subject c =
           [NameAttribute COUNTRY_NAME (country a),
            NameAttribute STATE_OR_PROVINCE_NAME (state a),
            NameAttribute LOCALITY_NAME (city a),
            NameAttribute ORGANIZATION_NAME (org a),
            NameAttribute COMMON_NAME (hostname a)]
       \<and> issuer c = subject c"
proof -
  from generate_certificate_Inr [OF assms] obtain k where "build_certificate e a = Inr (k, c)"
    by blast
  from build_certificate_Inr [OF this] obtain subj where
    s: "subject_name e a = Inr subj" and c: "subject c = subj" "issuer c = subj"
    by auto
  from subject_name_Inr [OF s] c show ?thesis by simp
qed

text \<open>
  The run with the default arguments.
\<close>

theorem subject_and_issuer_witness:
  "subject quiet_cert =
     [NameAttribute COUNTRY_NAME ''US'',
      NameAttribute STATE_OR_PROVINCE_NAME ''State'',
      NameAttribute LOCALITY_NAME ''City'',
      NameAttribute ORGANIZATION_NAME ''Local'',
      NameAttribute COMMON_NAME ''localhost'']
   \<and> issuer quiet_cert = subject quiet_cert"
  using subject_and_issuer [OF quiet_run]
  by (simp add: default_args_def)




end
